theory Spec2Isabelle
  imports Main "HOL-Library.Word"
begin

section \<open>Memory model\<close>

text \<open>
  The smart pointers of \<^verbatim>\<open>shared.h\<close> and \<^verbatim>\<open>unique.h\<close> work on heap objects
  through raw pointers. A payload pointer is null, the address of an object obtained from
  \<^verbatim>\<open>new\<close>, or the address of the \<^verbatim>\<open>holder\<close> member inside the control block
  that \<^verbatim>\<open>MakeShared\<close> allocates. A control-block pointer is \<open>None\<close> (null) or the
  address of a block.
\<close>

datatype ptr = Null | Obj nat | Holder nat

text \<open>
  Undefined behaviour of the C++ is a value of the model: a call through a null control
  pointer, a call through a pointer to a control block that has been freed, a
  \<^verbatim>\<open>delete\<close> of something that is not a live object obtained from \<^verbatim>\<open>new\<close>
  (a second delete, or a pointer into a control block), and a read through a payload
  pointer whose object is gone.
\<close>

datatype error = NullDeref | UseAfterFree nat | InvalidDelete ptr | Dangling ptr

text \<open>
  The heap keeps a log of what ran: the two virtual callbacks of a control block, every
  successful \<^verbatim>\<open>delete\<close> of a payload object and every \<^verbatim>\<open>destroy_at\<close> of a
  payload held in place.
\<close>

datatype event = ZeroStrong nat | ZeroWeak nat | Deleted ptr | Destroyed ptr

text \<open>
  \<^verbatim>\<open>ControlBlockBase\<close> has the two \<^verbatim>\<open>int\<close> counters; the derived classes add
  the in-place storage (\<open>Some v\<close> while the payload is constructed, \<open>None\<close> once
  it has been destroyed) or the tracked raw pointer. \<^verbatim>\<open>int\<close> is taken as 32 bits, and
  its overflow as wrap-around: a counter is a 32-bit word, read as two's complement.
\<close>

type_synonym cint = "32 word"

datatype 'a derived = ControlBlockMakeShared "'a option" | ControlBlockPtr ptr

record 'a ControlBlockBase =
  strong :: cint
  weak :: cint
  derived :: "'a derived"

text \<open>
  The heap: the live control blocks and the live payload objects by address, the next
  address \<^verbatim>\<open>new\<close> hands out (addresses are never handed out twice), and the log.
\<close>

record 'a heap =
  blocks :: "nat \<Rightarrow> 'a ControlBlockBase option"
  objs :: "nat \<Rightarrow> 'a option"
  next_addr :: nat
  trace :: "event list"

definition empty_heap :: "'a heap" where
  "empty_heap = \<lparr>blocks = Map.empty, objs = Map.empty, next_addr = 0, trace = []\<rparr>"

text \<open>\<^verbatim>\<open>new T(v)\<close> in client code: a fresh payload object.\<close>

definition new_obj :: "'a \<Rightarrow> 'a heap \<Rightarrow> ptr \<times> 'a heap" where
  "new_obj v h =
     (Obj (next_addr h),
      h\<lparr>objs := (objs h)(next_addr h \<mapsto> v), next_addr := Suc (next_addr h)\<rparr>)"

text \<open>\<^verbatim>\<open>new ControlBlock...(...)\<close>: a fresh control block.\<close>

definition new_block :: "'a ControlBlockBase \<Rightarrow> 'a heap \<Rightarrow> nat \<times> 'a heap" where
  "new_block b h =
     (next_addr h,
      h\<lparr>blocks := (blocks h)(next_addr h \<mapsto> b), next_addr := Suc (next_addr h)\<rparr>)"

text \<open>
  The expression \<^verbatim>\<open>delete p\<close> on a payload pointer: nothing for null, the end of a
  live object, undefined otherwise.
\<close>

fun delete_ptr :: "ptr \<Rightarrow> 'a heap \<Rightarrow> error + 'a heap" where
  "delete_ptr Null h = Inr h"
| "delete_ptr (Obj a) h =
     (if objs h a = None then Inl (InvalidDelete (Obj a))
      else Inr (h\<lparr>objs := (objs h)(a := None), trace := trace h @ [Deleted (Obj a)]\<rparr>))"
| "delete_ptr (Holder c) h = Inl (InvalidDelete (Holder c))"

text \<open>A member call \<^verbatim>\<open>cb_->f()\<close> through a control pointer that may be null.\<close>

definition arrow :: "nat option \<Rightarrow> (nat \<Rightarrow> 'h \<Rightarrow> error + 'r) \<Rightarrow> 'h \<Rightarrow> error + 'r" where
  "arrow cb f h = (case cb of None \<Rightarrow> Inl NullDeref | Some c \<Rightarrow> f c h)"

section \<open>Control blocks\<close>

text \<open>The constructors of the two derived classes: both start at \<open>strong = weak = 1\<close>.\<close>

definition ControlBlockPtr_ctor :: "ptr \<Rightarrow> 'a ControlBlockBase" where
  "ControlBlockPtr_ctor p = \<lparr>strong = 1, weak = 1, derived = ControlBlockPtr p\<rparr>"

definition ControlBlockMakeShared_ctor :: "'a \<Rightarrow> 'a ControlBlockBase" where
  "ControlBlockMakeShared_ctor v =
     \<lparr>strong = 1, weak = 1, derived = ControlBlockMakeShared (Some v)\<rparr>"

definition IncreaseStrong :: "nat \<Rightarrow> 'a heap \<Rightarrow> error + 'a heap" where
  "IncreaseStrong c h =
     (case blocks h c of
        None \<Rightarrow> Inl (UseAfterFree c)
      | Some b \<Rightarrow> Inr (h\<lparr>blocks := (blocks h)(c \<mapsto> b\<lparr>strong := strong b + 1\<rparr>)\<rparr>))"

definition ControlBlock_UseCount :: "nat \<Rightarrow> 'a heap \<Rightarrow> error + cint" where
  "ControlBlock_UseCount c h =
     (case blocks h c of None \<Rightarrow> Inl (UseAfterFree c) | Some b \<Rightarrow> Inr (strong b))"

text \<open>
  \<^verbatim>\<open>OnZeroStrong\<close> is virtual: \<^verbatim>\<open>ControlBlockPtr\<close> deletes the tracked
  pointer, \<^verbatim>\<open>ControlBlockMakeShared\<close> destroys the payload in its holder.
\<close>

definition OnZeroStrong :: "nat \<Rightarrow> 'a heap \<Rightarrow> error + 'a heap" where
  "OnZeroStrong c h =
     (case blocks h c of
        None \<Rightarrow> Inl (UseAfterFree c)
      | Some b \<Rightarrow>
          (let h1 = h\<lparr>trace := trace h @ [ZeroStrong c]\<rparr> in
           case derived b of
             ControlBlockPtr p \<Rightarrow> delete_ptr p h1
           | ControlBlockMakeShared None \<Rightarrow> Inl (Dangling (Holder c))
           | ControlBlockMakeShared (Some v) \<Rightarrow>
               Inr (h1\<lparr>blocks := (blocks h1)(c \<mapsto> b\<lparr>derived := ControlBlockMakeShared None\<rparr>),
                       trace := trace h1 @ [Destroyed (Holder c)]\<rparr>)))"

text \<open>\<^verbatim>\<open>OnZeroWeak\<close> is \<^verbatim>\<open>delete this\<close> in both derived classes.\<close>

definition OnZeroWeak :: "nat \<Rightarrow> 'a heap \<Rightarrow> error + 'a heap" where
  "OnZeroWeak c h =
     (case blocks h c of
        None \<Rightarrow> Inl (UseAfterFree c)
      | Some b \<Rightarrow> Inr (h\<lparr>blocks := (blocks h)(c := None), trace := trace h @ [ZeroWeak c]\<rparr>))"

definition DecreaseStrong :: "nat \<Rightarrow> 'a heap \<Rightarrow> error + 'a heap" where
  "DecreaseStrong c h =
     (case blocks h c of
        None \<Rightarrow> Inl (UseAfterFree c)
      | Some b \<Rightarrow>
          (let h1 = h\<lparr>blocks := (blocks h)(c \<mapsto> b\<lparr>strong := strong b - 1\<rparr>)\<rparr> in
           if strong b - 1 = 0
           then (case OnZeroStrong c h1 of Inl e \<Rightarrow> Inl e | Inr h2 \<Rightarrow> OnZeroWeak c h2)
           else Inr h1))"

section \<open>SharedPtr\<close>

text \<open>
  A handle is the pair of fields of the class. The operations are the member functions as
  \<^verbatim>\<open>shared.h\<close> writes them; each takes the handles it touches and the heap, and
  returns them updated, or the undefined behaviour it runs into. The copying and moving
  constructors and assignment operators are the member templates over the source handle's
  payload type that the file declares. The class declares no copy assignment operator of
  its own, so the compiler generates one; it is modelled after the two templates, with the
  choice C++ makes between them. Allocation always succeeds.
\<close>

text \<open>The fields \<^verbatim>\<open>cb_\<close> and \<^verbatim>\<open>ptr_\<close> (a name cannot end in an underscore here).\<close>

record SharedPtr =
  sp_cb :: "nat option"
  sp_ptr :: ptr

text \<open>\<^verbatim>\<open>operator==\<close>: the payload pointers, cast to \<^verbatim>\<open>void*\<close>, are compared.\<close>

definition operator_eq :: "SharedPtr \<Rightarrow> SharedPtr \<Rightarrow> bool" where
  "operator_eq left right = (sp_ptr left = sp_ptr right)"

text \<open>\<^verbatim>\<open>SharedPtr()\<close>\<close>

definition SharedPtr_default :: "'a heap \<Rightarrow> SharedPtr \<times> 'a heap" where
  "SharedPtr_default h =
     (case new_block (ControlBlockPtr_ctor Null) h of
        (c, h1) \<Rightarrow> (\<lparr>sp_cb = Some c, sp_ptr = Null\<rparr>, h1))"

text \<open>\<^verbatim>\<open>SharedPtr(std::nullptr_t)\<close>\<close>

definition SharedPtr_nullptr :: SharedPtr where
  "SharedPtr_nullptr = \<lparr>sp_cb = None, sp_ptr = Null\<rparr>"

text \<open>\<^verbatim>\<open>explicit SharedPtr(X* ptr)\<close>\<close>

definition SharedPtr_raw :: "ptr \<Rightarrow> 'a heap \<Rightarrow> SharedPtr \<times> 'a heap" where
  "SharedPtr_raw p h =
     (case new_block (ControlBlockPtr_ctor p) h of
        (c, h1) \<Rightarrow> (\<lparr>sp_cb = Some c, sp_ptr = p\<rparr>, h1))"

text \<open>\<^verbatim>\<open>SharedPtr(const SharedPtr<X>& other)\<close>\<close>

definition SharedPtr_copy :: "SharedPtr \<Rightarrow> 'a heap \<Rightarrow> error + SharedPtr \<times> 'a heap" where
  "SharedPtr_copy other h =
     (case arrow (sp_cb other) IncreaseStrong h of
        Inl e \<Rightarrow> Inl e
      | Inr h1 \<Rightarrow> Inr (\<lparr>sp_cb = sp_cb other, sp_ptr = sp_ptr other\<rparr>, h1))"

text \<open>
  \<^verbatim>\<open>SharedPtr(SharedPtr<X>&& other)\<close>: the new handle and what is left of
  \<^verbatim>\<open>other\<close>.
\<close>

definition SharedPtr_move :: "SharedPtr \<Rightarrow> SharedPtr \<times> SharedPtr" where
  "SharedPtr_move other =
     (\<lparr>sp_cb = sp_cb other, sp_ptr = sp_ptr other\<rparr>, \<lparr>sp_cb = None, sp_ptr = Null\<rparr>)"

text \<open>The aliasing constructor \<^verbatim>\<open>SharedPtr(const SharedPtr<Y>& other, T* ptr)\<close>\<close>

definition SharedPtr_alias :: "SharedPtr \<Rightarrow> ptr \<Rightarrow> 'a heap \<Rightarrow> error + SharedPtr \<times> 'a heap" where
  "SharedPtr_alias other p h =
     (case arrow (sp_cb other) IncreaseStrong h of
        Inl e \<Rightarrow> Inl e
      | Inr h1 \<Rightarrow> Inr (\<lparr>sp_cb = sp_cb other, sp_ptr = p\<rparr>, h1))"

text \<open>The constructor \<^verbatim>\<open>SharedPtr(ControlBlockBase* cb, T* ptr)\<close> used by the factory.\<close>

definition SharedPtr_of :: "nat option \<Rightarrow> ptr \<Rightarrow> SharedPtr" where
  "SharedPtr_of cb p = \<lparr>sp_cb = cb, sp_ptr = p\<rparr>"

text \<open>
  \<^verbatim>\<open>operator=(const SharedPtr<X>& other)\<close>, called on \<open>this\<close>: the handle
  assigned to, afterwards. \<^verbatim>\<open>other\<close> is not written.
\<close>

definition copy_assign :: "SharedPtr \<Rightarrow> SharedPtr \<Rightarrow> 'a heap \<Rightarrow> error + SharedPtr \<times> 'a heap" where
  "copy_assign this other h =
     (if operator_eq other this then Inr (this, h)
      else
        case arrow (sp_cb this) DecreaseStrong h of
          Inl e \<Rightarrow> Inl e
        | Inr h1 \<Rightarrow>
            (case arrow (sp_cb other) IncreaseStrong h1 of
               Inl e \<Rightarrow> Inl e
             | Inr h2 \<Rightarrow> Inr (\<lparr>sp_cb = sp_cb other, sp_ptr = sp_ptr other\<rparr>, h2)))"

text \<open>
  \<^verbatim>\<open>operator=(SharedPtr<X>&& other)\<close>: the handle assigned to and \<^verbatim>\<open>other\<close>,
  afterwards.
\<close>

definition move_assign ::
  "SharedPtr \<Rightarrow> SharedPtr \<Rightarrow> 'a heap \<Rightarrow> error + SharedPtr \<times> SharedPtr \<times> 'a heap" where
  "move_assign this other h =
     (if operator_eq other this then Inr (this, other, h)
      else
        case arrow (sp_cb this) DecreaseStrong h of
          Inl e \<Rightarrow> Inl e
        | Inr h1 \<Rightarrow>
            (case arrow (sp_cb other) IncreaseStrong h1 of
               Inl e \<Rightarrow> Inl e
             | Inr h2 \<Rightarrow>
                 Inr (\<lparr>sp_cb = sp_cb other, sp_ptr = sp_ptr other\<rparr>, \<lparr>sp_cb = None, sp_ptr = Null\<rparr>, h2)))"

text \<open>
  The copy assignment operator \<^verbatim>\<open>operator=(const SharedPtr&)\<close> that the compiler
  generates, a member template never being a copy assignment operator: it assigns the two
  fields, tests nothing and calls nothing.
\<close>

definition implicit_copy_assign :: "SharedPtr \<Rightarrow> SharedPtr \<Rightarrow> SharedPtr" where
  "implicit_copy_assign this other = this\<lparr>sp_cb := sp_cb other, sp_ptr := sp_ptr other\<rparr>"

text \<open>
  The statement \<^verbatim>\<open>a = b\<close> with an lvalue handle \<open>b\<close>. When the two handles have
  the same payload type (\<open>same_type\<close>), the generated operator and the member template
  \<^verbatim>\<open>operator=(const SharedPtr<X>&)\<close> match equally well and the one that is not a
  template is chosen; when the payload types differ only the member template applies.
  \<^verbatim>\<open>a = std::move(b)\<close> is \<open>move_assign\<close> in both cases: the rvalue binds to
  \<^verbatim>\<open>SharedPtr<X>&&\<close> in preference to the generated operator's const reference.
\<close>

definition assign_lvalue ::
  "bool \<Rightarrow> SharedPtr \<Rightarrow> SharedPtr \<Rightarrow> 'a heap \<Rightarrow> error + SharedPtr \<times> 'a heap" where
  "assign_lvalue same_type this other h =
     (if same_type then Inr (implicit_copy_assign this other, h)
      else copy_assign this other h)"

text \<open>\<^verbatim>\<open>~SharedPtr()\<close>\<close>

definition SharedPtr_dtor :: "SharedPtr \<Rightarrow> 'a heap \<Rightarrow> error + 'a heap" where
  "SharedPtr_dtor this h =
     (case arrow (sp_cb this) DecreaseStrong h of
        Inl e \<Rightarrow> Inl e
      | Inr h1 \<Rightarrow> (if sp_ptr this \<noteq> Null then delete_ptr (sp_ptr this) h1 else Inr h1))"

text \<open>\<^verbatim>\<open>Reset()\<close>\<close>

definition Reset :: "SharedPtr \<Rightarrow> 'a heap \<Rightarrow> error + SharedPtr \<times> 'a heap" where
  "Reset this h =
     (case (if sp_cb this \<noteq> None then arrow (sp_cb this) DecreaseStrong h else Inr h) of
        Inl e \<Rightarrow> Inl e
      | Inr h1 \<Rightarrow>
          (case (if sp_ptr this \<noteq> Null then delete_ptr (sp_ptr this) h1 else Inr h1) of
             Inl e \<Rightarrow> Inl e
           | Inr h2 \<Rightarrow> Inr (\<lparr>sp_cb = None, sp_ptr = Null\<rparr>, h2)))"

text \<open>\<^verbatim>\<open>Reset(T* ptr)\<close>\<close>

definition Reset_to :: "SharedPtr \<Rightarrow> ptr \<Rightarrow> 'a heap \<Rightarrow> error + SharedPtr \<times> 'a heap" where
  "Reset_to this p h =
     (case (if sp_cb this \<noteq> None then arrow (sp_cb this) DecreaseStrong h else Inr h) of
        Inl e \<Rightarrow> Inl e
      | Inr h1 \<Rightarrow>
          (case new_block (ControlBlockPtr_ctor p) h1 of
             (c, h2) \<Rightarrow>
               (case (if sp_ptr this \<noteq> Null then delete_ptr (sp_ptr this) h2 else Inr h2) of
                  Inl e \<Rightarrow> Inl e
                | Inr h3 \<Rightarrow> Inr (\<lparr>sp_cb = Some c, sp_ptr = p\<rparr>, h3))))"

text \<open>\<^verbatim>\<open>Swap\<close>: the two handles afterwards.\<close>

definition Swap :: "SharedPtr \<Rightarrow> SharedPtr \<Rightarrow> SharedPtr \<times> SharedPtr" where
  "Swap this other =
     (\<lparr>sp_cb = sp_cb other, sp_ptr = sp_ptr other\<rparr>, \<lparr>sp_cb = sp_cb this, sp_ptr = sp_ptr this\<rparr>)"

text \<open>The observers. \<^verbatim>\<open>UseCount\<close> converts the \<^verbatim>\<open>int\<close> to \<^verbatim>\<open>size_t\<close> (64 bits).\<close>

definition Get :: "SharedPtr \<Rightarrow> ptr" where
  "Get this = sp_ptr this"

definition UseCount :: "SharedPtr \<Rightarrow> 'a heap \<Rightarrow> error + 64 word" where
  "UseCount this h =
     (case arrow (sp_cb this) ControlBlock_UseCount h of
        Inl e \<Rightarrow> Inl e
      | Inr n \<Rightarrow> Inr (scast n))"

definition operator_bool :: "SharedPtr \<Rightarrow> bool" where
  "operator_bool this = (sp_ptr this \<noteq> Null)"

text \<open>
  \<^verbatim>\<open>operator*\<close> reads the payload: the object, or the in-place payload of the control
  block the pointer points into.
\<close>

definition deref :: "SharedPtr \<Rightarrow> 'a heap \<Rightarrow> error + 'a" where
  "deref this h =
     (case Get this of
        Null \<Rightarrow> Inl NullDeref
      | Obj a \<Rightarrow> (case objs h a of None \<Rightarrow> Inl (Dangling (Obj a)) | Some v \<Rightarrow> Inr v)
      | Holder c \<Rightarrow>
          (case blocks h c of
             None \<Rightarrow> Inl (Dangling (Holder c))
           | Some b \<Rightarrow>
               (case derived b of
                  ControlBlockMakeShared (Some v) \<Rightarrow> Inr v
                | ControlBlockMakeShared None \<Rightarrow> Inl (Dangling (Holder c))
                | ControlBlockPtr p \<Rightarrow> Inl (Dangling (Holder c)))))"

text \<open>\<^verbatim>\<open>MakeShared<V>(args...)\<close>, the payload given as the value the arguments construct.\<close>

definition MakeShared :: "'a \<Rightarrow> 'a heap \<Rightarrow> SharedPtr \<times> 'a heap" where
  "MakeShared v h =
     (case new_block (ControlBlockMakeShared_ctor v) h of
        (c, h1) \<Rightarrow> (SharedPtr_of (Some c) (Holder c), h1))"

section \<open>UniquePtr\<close>

text \<open>
  The handle of \<^verbatim>\<open>unique.h\<close>: a raw pointer and a deleter. A deleter is what its call
  does to the world \<open>'w\<close> it acts on; \<^verbatim>\<open>std::default_delete\<close> is the
  \<^verbatim>\<open>delete\<close> expression on the heap.
\<close>

text \<open>The fields \<^verbatim>\<open>ptr_\<close> and \<^verbatim>\<open>del_\<close>.\<close>

record 'w UniquePtr =
  up_ptr :: ptr
  up_del :: "ptr \<Rightarrow> 'w \<Rightarrow> error + 'w"

definition default_delete :: "ptr \<Rightarrow> 'a heap \<Rightarrow> error + 'a heap" where
  "default_delete p h = delete_ptr p h"

text \<open>\<^verbatim>\<open>UniquePtr(Y *elem, Deleter d)\<close> and \<^verbatim>\<open>UniquePtr(Y *elem)\<close>\<close>

definition UniquePtr_ctor :: "ptr \<Rightarrow> (ptr \<Rightarrow> 'w \<Rightarrow> error + 'w) \<Rightarrow> 'w UniquePtr" where
  "UniquePtr_ctor elem d = \<lparr>up_ptr = elem, up_del = d\<rparr>"

definition UniquePtr_of :: "ptr \<Rightarrow> 'a heap UniquePtr" where
  "UniquePtr_of elem = \<lparr>up_ptr = elem, up_del = default_delete\<rparr>"

text \<open>\<^verbatim>\<open>~UniquePtr()\<close>\<close>

definition UniquePtr_dtor :: "'w UniquePtr \<Rightarrow> 'w \<Rightarrow> error + 'w" where
  "UniquePtr_dtor this w = up_del this (up_ptr this) w"

text \<open>\<^verbatim>\<open>Release()\<close>: the pointer returned and the handle afterwards.\<close>

definition Release :: "'w UniquePtr \<Rightarrow> ptr \<times> 'w UniquePtr" where
  "Release this = (up_ptr this, this\<lparr>up_ptr := Null\<rparr>)"

text \<open>\<^verbatim>\<open>Reset(T *p = nullptr)\<close>\<close>

definition UniquePtr_Reset :: "'w UniquePtr \<Rightarrow> ptr \<Rightarrow> 'w \<Rightarrow> error + 'w UniquePtr \<times> 'w" where
  "UniquePtr_Reset this p w =
     (case (if up_ptr this \<noteq> Null then up_del this (up_ptr this) w else Inr w) of
        Inl e \<Rightarrow> Inl e
      | Inr w1 \<Rightarrow> Inr (this\<lparr>up_ptr := p\<rparr>, w1))"

definition UniquePtr_Get :: "'w UniquePtr \<Rightarrow> ptr" where
  "UniquePtr_Get this = up_ptr this"

definition UniquePtr_bool :: "'w UniquePtr \<Rightarrow> bool" where
  "UniquePtr_bool this = (\<not> (up_ptr this = Null))"

section \<open>Evaluation and helper lemmas\<close>

lemmas sp_defs = new_obj_def new_block_def empty_heap_def arrow_def ControlBlockPtr_ctor_def
  ControlBlockMakeShared_ctor_def IncreaseStrong_def ControlBlock_UseCount_def OnZeroStrong_def
  OnZeroWeak_def DecreaseStrong_def operator_eq_def SharedPtr_default_def SharedPtr_nullptr_def
  SharedPtr_raw_def SharedPtr_copy_def SharedPtr_move_def SharedPtr_alias_def SharedPtr_of_def
  copy_assign_def move_assign_def SharedPtr_dtor_def Reset_def Get_def UseCount_def
  operator_bool_def deref_def MakeShared_def

section \<open>The control block protocol\<close>

text \<open>
  C5. \<^verbatim>\<open>DecreaseStrong\<close> on a live control block \<open>b\<close> at address \<open>c\<close>
  takes one off the strong counter. When the result is not zero nothing else happens: the
  block stays, with the new counter, and the log is as it was, so neither callback ran.
  When the result is zero, the log grows by \<open>ZeroStrong c\<close>, then the destruction of
  the payload (nothing for a null tracked pointer, the deletion of the tracked object, or
  the destruction of the in-place payload), then \<open>ZeroWeak c\<close>, and the block is
  freed: each callback ran once, \<^verbatim>\<open>OnZeroStrong\<close> first. These three are the only
  cases in which the call returns; in the others the destruction of the payload is
  undefined.
\<close>

theorem DecreaseStrong_callbacks:
  assumes live: "blocks h c = Some b"
  shows "(strong b - 1 \<noteq> 0 \<longrightarrow>
            DecreaseStrong c h
              = Inr (h\<lparr>blocks := (blocks h)(c \<mapsto> b\<lparr>strong := strong b - 1\<rparr>)\<rparr>))
       \<and> (strong b - 1 = 0 \<longrightarrow>
            (derived b = ControlBlockPtr Null \<longrightarrow>
               DecreaseStrong c h
                 = Inr (h\<lparr>blocks := (blocks h)(c := None),
                          trace := trace h @ [ZeroStrong c, ZeroWeak c]\<rparr>))
          \<and> (\<forall>a. derived b = ControlBlockPtr (Obj a) \<and> objs h a \<noteq> None \<longrightarrow>
               DecreaseStrong c h
                 = Inr (h\<lparr>blocks := (blocks h)(c := None), objs := (objs h)(a := None),
                          trace := trace h @ [ZeroStrong c, Deleted (Obj a), ZeroWeak c]\<rparr>))
          \<and> (\<forall>v. derived b = ControlBlockMakeShared (Some v) \<longrightarrow>
               DecreaseStrong c h
                 = Inr (h\<lparr>blocks := (blocks h)(c := None),
                          trace := trace h @ [ZeroStrong c, Destroyed (Holder c), ZeroWeak c]\<rparr>))
          \<and> (\<forall>h'. DecreaseStrong c h = Inr h' \<longrightarrow>
               derived b = ControlBlockPtr Null
               \<or> (\<exists>a. derived b = ControlBlockPtr (Obj a) \<and> objs h a \<noteq> None)
               \<or> (\<exists>v. derived b = ControlBlockMakeShared (Some v))))"
proof (intro impI conjI allI)
  assume "strong b - 1 \<noteq> 0"
  with live show "DecreaseStrong c h
      = Inr (h\<lparr>blocks := (blocks h)(c \<mapsto> b\<lparr>strong := strong b - 1\<rparr>)\<rparr>)"
    by (simp add: DecreaseStrong_def)
next
  assume "strong b - 1 = 0" "derived b = ControlBlockPtr Null"
  with live show "DecreaseStrong c h
      = Inr (h\<lparr>blocks := (blocks h)(c := None), trace := trace h @ [ZeroStrong c, ZeroWeak c]\<rparr>)"
    by (simp add: DecreaseStrong_def OnZeroStrong_def OnZeroWeak_def)
next
  fix a
  assume "strong b - 1 = 0" "derived b = ControlBlockPtr (Obj a) \<and> objs h a \<noteq> None"
  with live show "DecreaseStrong c h
      = Inr (h\<lparr>blocks := (blocks h)(c := None), objs := (objs h)(a := None),
               trace := trace h @ [ZeroStrong c, Deleted (Obj a), ZeroWeak c]\<rparr>)"
    by (auto simp: DecreaseStrong_def OnZeroStrong_def OnZeroWeak_def)
next
  fix v
  assume "strong b - 1 = 0" "derived b = ControlBlockMakeShared (Some v)"
  with live show "DecreaseStrong c h
      = Inr (h\<lparr>blocks := (blocks h)(c := None),
               trace := trace h @ [ZeroStrong c, Destroyed (Holder c), ZeroWeak c]\<rparr>)"
    by (simp add: DecreaseStrong_def OnZeroStrong_def OnZeroWeak_def)
next
  fix h'
  assume z: "strong b - 1 = 0" and r: "DecreaseStrong c h = Inr h'"
  show "derived b = ControlBlockPtr Null
      \<or> (\<exists>a. derived b = ControlBlockPtr (Obj a) \<and> objs h a \<noteq> None)
      \<or> (\<exists>v. derived b = ControlBlockMakeShared (Some v))"
  proof (cases "derived b")
    case (ControlBlockMakeShared x)
    with live z r show ?thesis
      by (cases x) (simp_all add: DecreaseStrong_def OnZeroStrong_def Let_def)
  next
    case (ControlBlockPtr p)
    with live z r show ?thesis
      by (cases p) (auto simp: DecreaseStrong_def OnZeroStrong_def Let_def split: if_splits)
  qed
qed

text \<open>
  Both branches at a block that tracks the live object at address 1: from
  \<open>strong = 2\<close> the counter goes to 1 and nothing is logged; from \<open>strong = 1\<close> the
  two callbacks run around the deletion of the object.
\<close>

theorem DecreaseStrong_callbacks_witness:
  "(let b = \<lparr>strong = 2, weak = 1, derived = (ControlBlockPtr (Obj 1) :: int derived)\<rparr>;
        h = \<lparr>blocks = [0 \<mapsto> b], objs = [1 \<mapsto> 42], next_addr = 2, trace = []\<rparr>
    in blocks h 0 = Some b \<and> strong b - 1 \<noteq> 0 \<and>
       DecreaseStrong 0 h = Inr (h\<lparr>blocks := (blocks h)(0 \<mapsto> b\<lparr>strong := 1\<rparr>)\<rparr>))
 \<and> (let b = \<lparr>strong = 1, weak = 1, derived = (ControlBlockPtr (Obj 1) :: int derived)\<rparr>;
        h = \<lparr>blocks = [0 \<mapsto> b], objs = [1 \<mapsto> 42], next_addr = 2, trace = []\<rparr>
    in blocks h 0 = Some b \<and> strong b - 1 = 0
       \<and> derived b = ControlBlockPtr (Obj 1) \<and> objs h 1 \<noteq> None
       \<and> DecreaseStrong 0 h
           = Inr (h\<lparr>blocks := (blocks h)(0 := None), objs := (objs h)(1 := None),
                    trace := [ZeroStrong 0, Deleted (Obj 1), ZeroWeak 0]\<rparr>))"
  using
    DecreaseStrong_callbacks
      [of "\<lparr>blocks = [0 \<mapsto> \<lparr>strong = 2, weak = 1,
              derived = (ControlBlockPtr (Obj 1) :: int derived)\<rparr>],
            objs = [1 \<mapsto> 42], next_addr = 2, trace = []\<rparr>" 0
          "\<lparr>strong = 2, weak = 1, derived = (ControlBlockPtr (Obj 1) :: int derived)\<rparr>"]
    DecreaseStrong_callbacks
      [of "\<lparr>blocks = [0 \<mapsto> \<lparr>strong = 1, weak = 1,
              derived = (ControlBlockPtr (Obj 1) :: int derived)\<rparr>],
            objs = [1 \<mapsto> 42], next_addr = 2, trace = []\<rparr>" 0
          "\<lparr>strong = 1, weak = 1, derived = (ControlBlockPtr (Obj 1) :: int derived)\<rparr>"]
  by (simp add: Let_def)

section \<open>Construction\<close>

text \<open>
  C3, as the code has it. Construction from \<^verbatim>\<open>nullptr\<close> gives the empty handle: control
  pointer null, payload pointer null. The default constructor gives a null payload pointer
  too, but its control pointer is not null: it points to a control block allocated by the
  constructor, with \<open>strong = weak = 1\<close> and a null tracked pointer, so that
  \<^verbatim>\<open>UseCount()\<close> is 1. Nothing else on the heap changes.
\<close>

theorem default_ctor_state:
  "SharedPtr_nullptr = \<lparr>sp_cb = None, sp_ptr = Null\<rparr>
   \<and> fst (SharedPtr_default h) = \<lparr>sp_cb = Some (next_addr h), sp_ptr = Null\<rparr>
   \<and> blocks (snd (SharedPtr_default h)) (next_addr h)
       = Some \<lparr>strong = 1, weak = 1, derived = ControlBlockPtr Null\<rparr>
   \<and> objs (snd (SharedPtr_default h)) = objs h
   \<and> trace (snd (SharedPtr_default h)) = trace h
   \<and> Get (fst (SharedPtr_default h)) = Null
   \<and> \<not> operator_bool (fst (SharedPtr_default h))
   \<and> UseCount (fst (SharedPtr_default h)) (snd (SharedPtr_default h)) = Inr 1"
  by (simp add: sp_defs)

text \<open>
  C3, as it is stated, fails: on the empty heap the default constructor returns a handle
  whose control pointer is not null, a state other than the one construction from
  \<^verbatim>\<open>nullptr\<close> gives.
\<close>

theorem default_ctor_not_empty:
  "\<not> (sp_cb (fst (SharedPtr_default (empty_heap :: int heap))) = None
       \<and> sp_ptr (fst (SharedPtr_default (empty_heap :: int heap))) = Null)
   \<and> fst (SharedPtr_default (empty_heap :: int heap)) \<noteq> SharedPtr_nullptr"
  by (simp add: sp_defs)

section \<open>Destruction and Reset\<close>

text \<open>
  C1 says that the payload is deleted exactly once, when the strong count reaches zero.
  The code at the smallest inputs: a handle made from \<^verbatim>\<open>new int(42)\<close> and destroyed.
  The decrement in the destructor takes the count to zero and runs both callbacks, the
  first of which deletes the payload; the destructor then deletes its own payload pointer,
  the same object, a second time. With a second handle copied from the first, destroying
  the copy deletes the payload while the count is still 1: the first handle's payload
  pointer dangles, and destroying it deletes the object again from
  \<^verbatim>\<open>OnZeroStrong\<close>. A handle from \<^verbatim>\<open>MakeShared\<close>, destroyed, applies
  \<^verbatim>\<open>delete\<close> to a pointer into its control block.
\<close>

theorem dtor_deletes_payload_again:
  "(case new_obj (42::int) empty_heap of (p, s0) \<Rightarrow>
      (case SharedPtr_raw p s0 of (h1, s1) \<Rightarrow>
        (case arrow (sp_cb h1) DecreaseStrong s1 of
           Inl e \<Rightarrow> False
         | Inr s2 \<Rightarrow> trace s2 = [ZeroStrong 1, Deleted p, ZeroWeak 1])
        \<and> SharedPtr_dtor h1 s1 = Inl (InvalidDelete p)
        \<and> (case SharedPtr_copy h1 s1 of
             Inl e \<Rightarrow> False
           | Inr (h2, s2) \<Rightarrow>
               (case SharedPtr_dtor h2 s2 of
                  Inl e \<Rightarrow> False
                | Inr s3 \<Rightarrow>
                    trace s3 = [Deleted p] \<and> UseCount h1 s3 = Inr 1
                    \<and> deref h1 s3 = Inl (Dangling p)
                    \<and> SharedPtr_dtor h1 s3 = Inl (InvalidDelete p)))))
   \<and> (case MakeShared (42::int) empty_heap of (h1, s1) \<Rightarrow>
        SharedPtr_dtor h1 s1 = Inl (InvalidDelete (Holder 0)))"
  by (simp add: sp_defs)

text \<open>
  C2 says that after \<^verbatim>\<open>h1.Reset()\<close> the handle \<open>h2\<close> of the same group still
  reads 42. The code on the claim's scenario: after \<^verbatim>\<open>MakeShared<int>(42)\<close> and a
  copy, both handles read 42 and the count is 2; \<^verbatim>\<open>h1.Reset()\<close> then takes the
  count to 1 and applies \<^verbatim>\<open>delete\<close> to its payload pointer, which points into the
  control block. With the payload from \<^verbatim>\<open>new int(42)\<close> instead, \<^verbatim>\<open>h1.Reset()\<close>
  returns and leaves \<open>h1\<close> empty and the count of \<open>h2\<close> at 1, but it has deleted the
  payload: reading through \<open>h2\<close> reads a dead object.
\<close>

theorem Reset_deletes_shared_payload:
  "(case MakeShared (42::int) empty_heap of (h1, s1) \<Rightarrow>
      (case SharedPtr_copy h1 s1 of
        Inl e \<Rightarrow> False
      | Inr (h2, s2) \<Rightarrow>
          UseCount h1 s2 = Inr 2 \<and> deref h1 s2 = Inr 42 \<and> deref h2 s2 = Inr 42
          \<and> Reset h1 s2 = Inl (InvalidDelete (Holder 0))))
   \<and> (case new_obj (42::int) empty_heap of (p, s0) \<Rightarrow>
        (case SharedPtr_raw p s0 of (h1, s1) \<Rightarrow>
          (case SharedPtr_copy h1 s1 of
            Inl e \<Rightarrow> False
          | Inr (h2, s2) \<Rightarrow>
              UseCount h1 s2 = Inr 2 \<and> deref h2 s2 = Inr 42
              \<and> (case Reset h1 s2 of
                    Inl e \<Rightarrow> False
                  | Inr (h1', s3) \<Rightarrow>
                      h1' = SharedPtr_nullptr \<and> UseCount h2 s3 = Inr 1
                      \<and> trace s3 = [Deleted p]
                      \<and> deref h2 s3 = Inl (Dangling p)))))"
  by (simp add: sp_defs)

text \<open>
  C9, as the code has it. The handle built from \<^verbatim>\<open>nullptr\<close> and a moved-from handle
  have a null control pointer. On any handle whose control pointer is null the destructor
  is a call through the null pointer, and so are the assignments that run a member
  template, when the handle assigned does not compare equal to it: the move assignment,
  and the copy assignment from a handle of another payload type.
\<close>

theorem null_control_dereferenced:
  "sp_cb SharedPtr_nullptr = None
   \<and> sp_cb (snd (SharedPtr_move x)) = None
   \<and> (sp_cb this = None \<longrightarrow>
        SharedPtr_dtor this h = Inl NullDeref
        \<and> (\<not> operator_eq other this \<longrightarrow>
             copy_assign this other h = Inl NullDeref
             \<and> assign_lvalue False this other h = Inl NullDeref
             \<and> move_assign this other h = Inl NullDeref))"
  by (simp add: SharedPtr_nullptr_def SharedPtr_move_def SharedPtr_dtor_def copy_assign_def
      move_assign_def assign_lvalue_def arrow_def)

text \<open>
  At the handle built from \<^verbatim>\<open>nullptr\<close>, with a handle that owns \<^verbatim>\<open>new int(42)\<close>
  assigned into it, and at what a move constructor leaves of that handle.
\<close>

theorem null_control_dereferenced_witness:
  "(case new_obj (42::int) empty_heap of (p, s0) \<Rightarrow>
      (case SharedPtr_raw p s0 of (other, s1) \<Rightarrow>
         sp_cb SharedPtr_nullptr = None
         \<and> \<not> operator_eq other SharedPtr_nullptr
         \<and> SharedPtr_dtor SharedPtr_nullptr s1 = Inl NullDeref
         \<and> copy_assign SharedPtr_nullptr other s1 = Inl NullDeref
         \<and> assign_lvalue False SharedPtr_nullptr other s1 = Inl NullDeref
         \<and> move_assign SharedPtr_nullptr other s1 = Inl NullDeref
         \<and> sp_cb (snd (SharedPtr_move other)) = None
         \<and> SharedPtr_dtor (snd (SharedPtr_move other)) s1 = Inl NullDeref))"
proof -
  let ?s1 = "snd (SharedPtr_raw (Obj 0) (snd (new_obj (42::int) empty_heap)))"
  let ?other = "fst (SharedPtr_raw (Obj 0) (snd (new_obj (42::int) empty_heap)))"
  show ?thesis
    using null_control_dereferenced [of ?other SharedPtr_nullptr ?s1 ?other]
      null_control_dereferenced [of ?other "snd (SharedPtr_move ?other)" ?s1 ?other]
    by (simp add: new_obj_def new_block_def empty_heap_def SharedPtr_raw_def
        ControlBlockPtr_ctor_def SharedPtr_nullptr_def operator_eq_def)
qed

text \<open>
  C9, as it is stated, fails for the copy assignment between two handles of one payload
  type: \<^verbatim>\<open>SharedPtr<int> n(nullptr); SharedPtr<int> o(new int(42)); n = o;\<close>. The
  handle \<open>n\<close> has a null control pointer and \<open>o\<close> does not compare equal to it, yet
  the assignment runs the generated operator, goes through no control pointer and returns,
  with \<open>o\<close>'s two fields in \<open>n\<close> and the heap as it was.
\<close>

theorem same_type_copy_into_null_returns:
  "sp_cb SharedPtr_nullptr = None
   \<and> \<not> operator_eq (fst (SharedPtr_raw (Obj 0) (snd (new_obj (42::int) empty_heap))))
         SharedPtr_nullptr
   \<and> assign_lvalue True SharedPtr_nullptr
         (fst (SharedPtr_raw (Obj 0) (snd (new_obj (42::int) empty_heap))))
         (snd (SharedPtr_raw (Obj 0) (snd (new_obj (42::int) empty_heap))))
       = Inr (fst (SharedPtr_raw (Obj 0) (snd (new_obj (42::int) empty_heap))),
              snd (SharedPtr_raw (Obj 0) (snd (new_obj (42::int) empty_heap))))
   \<and> assign_lvalue True SharedPtr_nullptr
         (fst (SharedPtr_raw (Obj 0) (snd (new_obj (42::int) empty_heap))))
         (snd (SharedPtr_raw (Obj 0) (snd (new_obj (42::int) empty_heap))))
       \<noteq> Inl NullDeref"
  by (simp add: assign_lvalue_def implicit_copy_assign_def SharedPtr_nullptr_def
      SharedPtr_raw_def new_obj_def new_block_def empty_heap_def ControlBlockPtr_ctor_def
      operator_eq_def)

section \<open>Assignment\<close>

text \<open>
  C4 says that a move assignment does not increase the strong count of the group it
  takes over. The code with two handles that own different objects: before
  \<^verbatim>\<open>a = std::move(b)\<close> the count of \<open>b\<close>'s group is 1; afterwards \<open>b\<close> is empty,
  \<open>a\<close> has \<open>b\<close>'s control block and payload, and the count of that group is 2, with
  one handle in it. The move constructor, from the same \<open>b\<close>, leaves the count at 1.
\<close>

theorem move_assign_increases_strong:
  "(case new_obj (1::int) empty_heap of (p1, s0) \<Rightarrow>
      (case new_obj 2 s0 of (p2, s1) \<Rightarrow>
        (case SharedPtr_raw p1 s1 of (a, s2) \<Rightarrow>
          (case SharedPtr_raw p2 s2 of (b, s3) \<Rightarrow>
            sp_cb a \<noteq> sp_cb b \<and> UseCount b s3 = Inr 1
            \<and> (case move_assign a b s3 of
                  Inl e \<Rightarrow> False
                | Inr (a', b', s4) \<Rightarrow>
                    b' = SharedPtr_nullptr \<and> sp_cb a' = sp_cb b \<and> Get a' = p2
                    \<and> UseCount a' s4 = Inr 2)
            \<and> (case SharedPtr_move b of (a', b') \<Rightarrow>
                  b' = SharedPtr_nullptr \<and> sp_cb a' = sp_cb b
                  \<and> UseCount a' s3 = Inr 1)))))"
  by (simp add: sp_defs)


text \<open>
  C10, as the code has it. The guard of both assignment member templates is
  \<^verbatim>\<open>operator==\<close>, which looks at the payload pointers only. So for any two handles
  \<open>a\<close> and \<open>b\<close> with equal payload pointers, whatever their control pointers, the
  assignments that run a member template return at the guard: the copy assignment
  \<^verbatim>\<open>a = b\<close> from a handle of another payload type, and the move assignment
  \<^verbatim>\<open>a = std::move(b)\<close>. \<open>a\<close> keeps its control block and payload, \<open>b\<close> is not
  emptied, and the heap, with every counter, is unchanged.
\<close>

theorem assignment_guard_noop:
  "sp_ptr a = sp_ptr b \<longrightarrow>
     copy_assign a b h = Inr (a, h)
     \<and> assign_lvalue False a b h = Inr (a, h)
     \<and> move_assign a b h = Inr (a, b, h)"
  by (simp add: copy_assign_def move_assign_def assign_lvalue_def operator_eq_def)

text \<open>
  At two default-constructed handles: each has a control block of its own, both payload
  pointers are null.
\<close>

theorem assignment_guard_noop_witness:
  "(case SharedPtr_default (empty_heap :: int heap) of (a, s1) \<Rightarrow>
      (case SharedPtr_default s1 of (b, s2) \<Rightarrow>
         sp_cb a \<noteq> sp_cb b \<and> sp_ptr a = sp_ptr b
         \<and> copy_assign a b s2 = Inr (a, s2)
         \<and> assign_lvalue False a b s2 = Inr (a, s2)
         \<and> move_assign a b s2 = Inr (a, b, s2)))"
  using assignment_guard_noop
    [of "\<lparr>sp_cb = Some 0, sp_ptr = Null\<rparr>" "\<lparr>sp_cb = Some 1, sp_ptr = Null\<rparr>"
        "snd (SharedPtr_default (snd (SharedPtr_default (empty_heap :: int heap))))"]
  by (simp add: SharedPtr_default_def new_block_def empty_heap_def ControlBlockPtr_ctor_def)

text \<open>
  C10, as it is stated, fails for the copy assignment between two handles of one payload
  type: \<^verbatim>\<open>SharedPtr<int> a; SharedPtr<int> b; a = b;\<close>. The two payload pointers are
  null and the control blocks differ, yet the assignment runs the generated operator,
  which has no guard: \<open>a\<close> does not keep its control block, it ends with \<open>b\<close>'s.
  The heap is unchanged.
\<close>

theorem same_type_copy_rebinds_control:
  "sp_ptr (fst (SharedPtr_default (empty_heap :: int heap)))
     = sp_ptr (fst (SharedPtr_default (snd (SharedPtr_default (empty_heap :: int heap)))))
   \<and> sp_cb (fst (SharedPtr_default (empty_heap :: int heap)))
     \<noteq> sp_cb (fst (SharedPtr_default (snd (SharedPtr_default (empty_heap :: int heap)))))
   \<and> assign_lvalue True
         (fst (SharedPtr_default (empty_heap :: int heap)))
         (fst (SharedPtr_default (snd (SharedPtr_default (empty_heap :: int heap)))))
         (snd (SharedPtr_default (snd (SharedPtr_default (empty_heap :: int heap)))))
       = Inr (fst (SharedPtr_default (snd (SharedPtr_default (empty_heap :: int heap)))),
              snd (SharedPtr_default (snd (SharedPtr_default (empty_heap :: int heap)))))
   \<and> assign_lvalue True
         (fst (SharedPtr_default (empty_heap :: int heap)))
         (fst (SharedPtr_default (snd (SharedPtr_default (empty_heap :: int heap)))))
         (snd (SharedPtr_default (snd (SharedPtr_default (empty_heap :: int heap)))))
       \<noteq> Inr (fst (SharedPtr_default (empty_heap :: int heap)),
              snd (SharedPtr_default (snd (SharedPtr_default (empty_heap :: int heap)))))"
  by (simp add: assign_lvalue_def implicit_copy_assign_def SharedPtr_default_def
      new_block_def empty_heap_def ControlBlockPtr_ctor_def)

section \<open>Equality\<close>

text \<open>
  C7. \<^verbatim>\<open>a == b\<close> holds exactly when the payload pointers of \<open>a\<close> and \<open>b\<close> are the
  same address. The control pointers play no part: two handles with the same payload
  pointer are equal whatever their control pointers \<open>ca\<close> and \<open>cb\<close>, two handles
  built from \<^verbatim>\<open>nullptr\<close> are equal, and two handles built by the aliasing
  constructor at one address \<open>p\<close> are equal whatever groups they joined. The payload
  type of a handle is not part of its model, so the two handles may be of different
  payload types.
\<close>

theorem eq_compares_payload_address:
  "operator_eq a b = (sp_ptr a = sp_ptr b)
   \<and> operator_eq \<lparr>sp_cb = ca, sp_ptr = p\<rparr> \<lparr>sp_cb = cb, sp_ptr = p\<rparr>
   \<and> operator_eq SharedPtr_nullptr SharedPtr_nullptr
   \<and> (SharedPtr_alias oa p ha = Inr (x, ha') \<and> SharedPtr_alias ob p hb = Inr (y, hb')
        \<longrightarrow> operator_eq x y)"
  by (auto simp: operator_eq_def SharedPtr_alias_def SharedPtr_nullptr_def split: sum.splits)

text \<open>
  At two aliases of address 7, built from two default-constructed handles, each with a
  control block of its own.
\<close>

theorem eq_compares_payload_address_witness:
  "(case SharedPtr_default (empty_heap :: int heap) of (oa, s1) \<Rightarrow>
     (case SharedPtr_default s1 of (ob, s2) \<Rightarrow>
       (case SharedPtr_alias oa (Obj 7) s2 of
         Inl e \<Rightarrow> False
       | Inr (x, s3) \<Rightarrow>
           (case SharedPtr_alias ob (Obj 7) s3 of
              Inl e \<Rightarrow> False
            | Inr (y, s4) \<Rightarrow> sp_cb x \<noteq> sp_cb y \<and> operator_eq x y))))"
proof -
  let ?oa = "\<lparr>sp_cb = Some 0, sp_ptr = Null\<rparr>"
  let ?ob = "\<lparr>sp_cb = Some 1, sp_ptr = Null\<rparr>"
  let ?x = "\<lparr>sp_cb = Some 0, sp_ptr = Obj 7\<rparr>"
  let ?y = "\<lparr>sp_cb = Some 1, sp_ptr = Obj 7\<rparr>"
  let ?s2 = "snd (SharedPtr_default (snd (SharedPtr_default (empty_heap :: int heap))))"
  let ?s3 = "snd (projr (SharedPtr_alias ?oa (Obj 7) ?s2))"
  let ?s4 = "snd (projr (SharedPtr_alias ?ob (Obj 7) ?s3))"
  show ?thesis
    using eq_compares_payload_address
      [where a = ?x and b = ?y and ca = "Some 0" and cb = "Some 1" and p = "Obj 7"
         and oa = ?oa and ob = ?ob and x = ?x and y = ?y
         and ha = ?s2 and ha' = ?s3 and hb = ?s3 and hb' = ?s4]
    by (simp add: SharedPtr_default_def SharedPtr_alias_def new_block_def empty_heap_def
        ControlBlockPtr_ctor_def arrow_def IncreaseStrong_def SharedPtr_nullptr_def)
qed

section \<open>UniquePtr\<close>

text \<open>
  C8. \<^verbatim>\<open>Release()\<close> returns the pointer the handle held and leaves the handle with a
  null pointer (\<^verbatim>\<open>Get()\<close> is null, the boolean test is false) and the deleter it had.
  It is a function of the handle alone: it does not touch the world the deleter acts on,
  so it does not call the deleter. The destructor of the released handle calls the deleter
  once, on the null pointer and never on the pointer released; with the default deleter
  that call is \<^verbatim>\<open>delete\<close> of null and leaves the heap as it was, for every pointer
  \<open>p\<close> the handle held and every heap.
\<close>

theorem Release_relinquishes:
  "fst (Release u) = up_ptr u
   \<and> UniquePtr_Get (snd (Release u)) = Null
   \<and> \<not> UniquePtr_bool (snd (Release u))
   \<and> up_del (snd (Release u)) = up_del u
   \<and> UniquePtr_dtor (snd (Release u)) w = up_del u Null w
   \<and> UniquePtr_dtor (snd (Release (UniquePtr_of p))) h = Inr h"
  by (simp add: Release_def UniquePtr_Get_def UniquePtr_bool_def UniquePtr_dtor_def
      UniquePtr_of_def default_delete_def)

end
